theory Spec2Isabelle
  imports Main "HOL-Library.Sublist"
begin

section \<open>The parsed document tree and the JavaScript operations of server.js\<close>

text \<open>
  \<^verbatim>\<open>server.js\<close> receives the tree that the XML decoder builds with
  \<^verbatim>\<open>explicitArray: false\<close>: a text-only element is a string, an element with
  attributes or children is an object (attributes under \<^verbatim>\<open>$\<close>, text under
  \<^verbatim>\<open>_\<close>), a repeated element is an array. A JavaScript string is modelled as a
  \<open>string\<close> whose characters are the code units 0..255.

  An object carries its prototype: \<open>ObjectPrototype\<close> for an ordinary object (a literal
  \<^verbatim>\<open>{}\<close>, or an object built by a decoder that uses object literals),
  \<open>NullPrototype\<close> for an object made with \<^verbatim>\<open>Object.create(null)\<close>. The members
  of an object are the data values of the tree, so none of them is callable.
\<close>

datatype proto = ObjectPrototype | NullPrototype

datatype jsval =
    JUndefined
  | JNull
  | JStr string
  | JArr "jsval list"
  | JObj proto "(string \<times> jsval) list"

datatype error = TypeError string

definition bindE :: "error + 'a \<Rightarrow> ('a \<Rightarrow> error + 'b) \<Rightarrow> error + 'b" where
  "bindE r f = (case r of Inl e \<Rightarrow> Inl e | Inr x \<Rightarrow> f x)"

text \<open>Truthiness, as \<^verbatim>\<open>!v\<close>, \<^verbatim>\<open>a || b\<close> and \<^verbatim>\<open>filter(Boolean)\<close> read it.\<close>

fun truthy :: "jsval \<Rightarrow> bool" where
  "truthy JUndefined = False"
| "truthy JNull = False"
| "truthy (JStr s) = (s \<noteq> [])"
| "truthy (JArr xs) = True"
| "truthy (JObj p kvs) = True"

fun nullish :: "jsval \<Rightarrow> bool" where
  "nullish JUndefined = True"
| "nullish JNull = True"
| "nullish v = False"

definition orElse :: "jsval \<Rightarrow> jsval \<Rightarrow> jsval" where
  "orElse a b = (if truthy a then a else b)"

text \<open>
  \<open>get v k\<close> is \<^verbatim>\<open>v?.k\<close>: \<^verbatim>\<open>undefined\<close> on \<^verbatim>\<open>undefined\<close> and \<^verbatim>\<open>null\<close>,
  the own member \<open>k\<close> of an object, and \<^verbatim>\<open>undefined\<close> on a string or an array, for
  the member names that server.js reads (none of them is inherited from a prototype).
  It is also \<^verbatim>\<open>v.k\<close> wherever \<open>v\<close> is not \<^verbatim>\<open>undefined\<close> or \<^verbatim>\<open>null\<close>.
\<close>

fun get :: "jsval \<Rightarrow> string \<Rightarrow> jsval" where
  "get (JObj p kvs) k = (case map_of kvs k of Some v \<Rightarrow> v | None \<Rightarrow> JUndefined)"
| "get v k = JUndefined"

text \<open>
  \<^verbatim>\<open>String(v)\<close> and the conversion inside a template literal. An array is joined with
  commas, \<^verbatim>\<open>undefined\<close> and \<^verbatim>\<open>null\<close> elements giving the empty string. An ordinary
  object inherits \<^verbatim>\<open>Object.prototype.toString\<close> unless it has an own member named
  \<^verbatim>\<open>toString\<close> (a data value, not callable); without a callable \<^verbatim>\<open>toString\<close> the
  conversion throws, as it does on every prototype-less object.
\<close>

fun ToString :: "jsval \<Rightarrow> error + string"
  and joinElements :: "jsval list \<Rightarrow> error + string" where
  "ToString JUndefined = Inr ''undefined''"
| "ToString JNull = Inr ''null''"
| "ToString (JStr s) = Inr s"
| "ToString (JArr xs) = joinElements xs"
| "ToString (JObj p kvs) =
     (if p = ObjectPrototype \<and> map_of kvs ''toString'' = None
      then Inr ''[object Object]''
      else Inl (TypeError ''Cannot convert object to primitive value''))"
| "joinElements [] = Inr []"
| "joinElements (x # xs) =
     bindE (if nullish x then Inr [] else ToString x) (\<lambda>s.
       if xs = [] then Inr s
       else bindE (joinElements xs) (\<lambda>r. Inr (s @ '','' @ r)))"

subsection \<open>clean\<close>

text \<open>
  The pattern \<^verbatim>\<open>/NOTPROVIDED/gi\<close>: a code unit matches a letter of the pattern when
  its canonical form is that letter; only the ASCII lower-case letters have an ASCII
  canonical form other than themselves.
\<close>

definition Canonicalize :: "char \<Rightarrow> char" where
  "Canonicalize c =
     (case map_of (zip ''abcdefghijklmnopqrstuvwxyz'' ''ABCDEFGHIJKLMNOPQRSTUVWXYZ'') c of
        Some u \<Rightarrow> u
      | None \<Rightarrow> c)"

definition matchesNP :: "string \<Rightarrow> bool" where
  "matchesNP s = (map Canonicalize (take 11 s) = ''NOTPROVIDED'')"

text \<open>\<^verbatim>\<open>s.replace(/NOTPROVIDED/gi, "")\<close>: one scan from the left; a match is dropped and
  the scan goes on behind it.\<close>

fun removeNP :: "string \<Rightarrow> string" where
  "removeNP [] = []"
| "removeNP (c # cs) =
     (if matchesNP (c # cs) then removeNP (drop 10 cs) else c # removeNP cs)"

definition isWhiteSpace :: "char \<Rightarrow> bool" where
  "isWhiteSpace c =
     (c \<in> set [CHR 0x09, CHR 0x0A, CHR 0x0B, CHR 0x0C, CHR 0x0D, CHR '' '', CHR 0xA0])"

definition trim :: "string \<Rightarrow> string" where
  "trim s = rev (dropWhile isWhiteSpace (rev (dropWhile isWhiteSpace s)))"

definition clean :: "jsval \<Rightarrow> error + string" where
  "clean v =
     (if \<not> truthy v then Inr []
      else bindE (ToString v) (\<lambda>s. Inr (trim (removeNP s))))"

subsection \<open>formatDateYYMMDD\<close>

text \<open>
  A valid \<^verbatim>\<open>Date\<close> is read only through its UTC year, month index and day of month.
  \<^verbatim>\<open>Date.parse\<close> is fixed by the language on the calendar-date form
  \<^verbatim>\<open>YYYY-MM-DD\<close>, which is UTC midnight of that day; what it does with any other
  string (other forms, local times, the engine's own formats) is the parameter
  \<open>hostParse\<close>.
\<close>

record utc =
  utcFullYear :: int
  utcMonth :: nat
  utcDate :: nat

type_synonym date_parser = "string \<Rightarrow> utc option"

definition isDigit :: "char \<Rightarrow> bool" where
  "isDigit c = (c \<in> set ''0123456789'')"

definition digitVal :: "char \<Rightarrow> nat" where
  "digitVal c = of_char c - 48"

definition daysInMonth :: "nat \<Rightarrow> nat \<Rightarrow> nat" where
  "daysInMonth y m =
     (if m = 2
      then (if y mod 400 = 0 then 29 else if y mod 100 = 0 then 28
            else if y mod 4 = 0 then 29 else 28)
      else if m \<in> {4, 6, 9, 11} then 30 else 31)"

definition isoCalendarDate :: "string \<Rightarrow> utc option" where
  "isoCalendarDate s =
     (case s of
        [y1, y2, y3, y4, h1, m1, m2, h2, d1, d2] \<Rightarrow>
          (if h1 = CHR ''-'' \<and> h2 = CHR ''-'' \<and> list_all isDigit [y1, y2, y3, y4, m1, m2, d1, d2]
           then
             (let y = 1000 * digitVal y1 + 100 * digitVal y2 + 10 * digitVal y3 + digitVal y4;
                  m = 10 * digitVal m1 + digitVal m2;
                  d = 10 * digitVal d1 + digitVal d2
              in if 1 \<le> m \<and> m \<le> 12 \<and> 1 \<le> d \<and> d \<le> daysInMonth y m
                 then Some \<lparr>utcFullYear = int y, utcMonth = m - 1, utcDate = d\<rparr>
                 else None)
           else None)
      | _ \<Rightarrow> None)"

definition Date_parse :: "date_parser \<Rightarrow> string \<Rightarrow> utc option" where
  "Date_parse hostParse s =
     (case isoCalendarDate s of Some d \<Rightarrow> Some d | None \<Rightarrow> hostParse s)"

text \<open>\<^verbatim>\<open>String(n)\<close> on an integer.\<close>

fun natToString :: "nat \<Rightarrow> string" where
  "natToString n =
     (if n < 10 then [''0123456789'' ! n]
      else natToString (n div 10) @ [''0123456789'' ! (n mod 10)])"

declare natToString.simps [simp del]

definition intToString :: "int \<Rightarrow> string" where
  "intToString i = (if i < 0 then CHR ''-'' # natToString (nat (- i)) else natToString (nat i))"

definition padStart2 :: "string \<Rightarrow> string" where
  "padStart2 s = replicate (2 - length s) CHR ''0'' @ s"

text \<open>
  \<^verbatim>\<open>new Date(dateString)\<close> converts a value that is not a string to a primitive first,
  which on the values of the tree gives what \<open>ToString\<close> gives (or throws as it
  does), and parses the resulting string.
\<close>

definition formatDateYYMMDD :: "date_parser \<Rightarrow> jsval \<Rightarrow> error + string" where
  "formatDateYYMMDD hostParse dateString =
     (if \<not> truthy dateString then Inr []
      else bindE (ToString dateString) (\<lambda>s.
        case Date_parse hostParse s of
          None \<Rightarrow> Inr []
        | Some date \<Rightarrow>
            (let yy = drop 2 (intToString (utcFullYear date));
                 mm = padStart2 (natToString (utcMonth date + 1));
                 dd = padStart2 (natToString (utcDate date))
             in Inr (yy @ mm @ dd))))"

subsection \<open>buildMT103\<close>

definition grpHdr :: "jsval \<Rightarrow> jsval" where
  "grpHdr data = orElse (get data ''GrpHdr'') (JObj ObjectPrototype [])"

definition txInfo :: "jsval \<Rightarrow> jsval" where
  "txInfo data = orElse (get data ''CdtTrfTxInf'') (JObj ObjectPrototype [])"

definition dbtr :: "jsval \<Rightarrow> jsval" where
  "dbtr data = orElse (get (txInfo data) ''Dbtr'') (JObj ObjectPrototype [])"

definition cdtr :: "jsval \<Rightarrow> jsval" where
  "cdtr data = orElse (get (txInfo data) ''Cdtr'') (JObj ObjectPrototype [])"

definition sttlmInf :: "jsval \<Rightarrow> jsval" where
  "sttlmInf data = orElse (get (grpHdr data) ''SttlmInf'') (JObj ObjectPrototype [])"

definition instrId :: "jsval \<Rightarrow> error + string" where
  "instrId data = clean (orElse (get (get (txInfo data) ''PmtId'') ''InstrId'') (JStr []))"

definition valueDate :: "date_parser \<Rightarrow> jsval \<Rightarrow> error + string" where
  "valueDate hostParse data =
     bindE (formatDateYYMMDD hostParse (get (txInfo data) ''IntrBkSttlmDt'')) (\<lambda>d.
       if d \<noteq> [] then Inr d
       else formatDateYYMMDD hostParse (get (grpHdr data) ''CreDtTm''))"

definition currency :: "jsval \<Rightarrow> jsval" where
  "currency data =
     orElse (get (get (get (txInfo data) ''IntrBkSttlmAmt'') ''$'') ''Ccy'') (JStr [])"

text \<open>\<^verbatim>\<open>s.replace(".", ",")\<close>: the first full stop only.\<close>

fun replaceDot :: "string \<Rightarrow> string" where
  "replaceDot [] = []"
| "replaceDot (c # cs) = (if c = CHR ''.'' then CHR '','' # cs else c # replaceDot cs)"

text \<open>The variable \<^verbatim>\<open>amount\<close> as line 48 reads it (lines 41 to 47).\<close>

definition amount :: "jsval \<Rightarrow> error + string" where
  "amount data =
     (let amt = get (txInfo data) ''IntrBkSttlmAmt'';
          a = orElse (orElse (get amt ''_'') amt) (JStr [])
      in if truthy a
         then bindE (ToString a) (\<lambda>s.
                let r = replaceDot s
                in Inr (if CHR '','' \<notin> set r then r @ '',00'' else r))
         else ToString a)"

definition dbtrIban :: "jsval \<Rightarrow> error + string" where
  "dbtrIban data =
     clean (orElse (get (get (get (txInfo data) ''DbtrAcct'') ''Id'') ''IBAN'') (JStr []))"

definition dbtrName :: "jsval \<Rightarrow> error + string" where
  "dbtrName data = clean (orElse (get (dbtr data) ''Nm'') (JStr []))"

text \<open>
  \<^verbatim>\<open>Array.isArray(a) ? a : [a].filter(Boolean)\<close> on
  \<^verbatim>\<open>party.PstlAdr?.AdrLine || []\<close> (lines 56, 57 and 83, 84).
\<close>

definition addressArray :: "jsval \<Rightarrow> jsval list" where
  "addressArray party =
     (let addr = orElse (get (get party ''PstlAdr'') ''AdrLine'') (JArr [])
      in case addr of JArr xs \<Rightarrow> xs | _ \<Rightarrow> filter truthy [addr])"

definition dbtrAddressArray :: "jsval \<Rightarrow> jsval list" where
  "dbtrAddressArray data = addressArray (dbtr data)"

definition cdtrAddressArray :: "jsval \<Rightarrow> jsval list" where
  "cdtrAddressArray data = addressArray (cdtr data)"

text \<open>The \<^verbatim>\<open>forEach\<close> of lines 58 to 63 and 85 to 90: the lines it pushes.\<close>

fun pushCleanLines :: "jsval list \<Rightarrow> error + string list" where
  "pushCleanLines [] = Inr []"
| "pushCleanLines (line # rest) =
     bindE (clean line) (\<lambda>cleanLine.
       bindE (pushCleanLines rest) (\<lambda>more.
         Inr (if cleanLine \<noteq> [] then cleanLine # more else more)))"

definition agentBIC :: "jsval \<Rightarrow> error + string" where
  "agentBIC agt = clean (orElse (get (get agt ''FinInstnId'') ''BICFI'') (JStr []))"

definition dbtrAgent :: "jsval \<Rightarrow> error + string" where
  "dbtrAgent data = agentBIC (get (txInfo data) ''DbtrAgt'')"

definition instgAgent :: "jsval \<Rightarrow> error + string" where
  "instgAgent data = agentBIC (get (sttlmInf data) ''InstgRmbrsmntAgt'')"

definition instdAgent :: "jsval \<Rightarrow> error + string" where
  "instdAgent data = agentBIC (get (sttlmInf data) ''InstdRmbrsmntAgt'')"

definition cdtrAgent :: "jsval \<Rightarrow> error + string" where
  "cdtrAgent data = agentBIC (get (txInfo data) ''CdtrAgt'')"

definition cdtrAccount :: "jsval \<Rightarrow> error + string" where
  "cdtrAccount data =
     (let cdtrAcctId = get (get (txInfo data) ''CdtrAcct'') ''Id''
      in clean (orElse (orElse (get (get cdtrAcctId ''Othr'') ''Id'') (get cdtrAcctId ''IBAN''))
                  (JStr [])))"

definition cdtrName :: "jsval \<Rightarrow> error + string" where
  "cdtrName data = clean (orElse (get (cdtr data) ''Nm'') (JStr []))"

definition remittanceInfo :: "jsval \<Rightarrow> error + string" where
  "remittanceInfo data =
     clean (orElse (get (get (txInfo data) ''RmtInf'') ''Ustrd'') (JStr []))"

definition charges :: "jsval \<Rightarrow> error + string" where
  "charges data =
     (if truthy (get (txInfo data) ''ChrgBr'')
      then bindE (clean (get (txInfo data) ''ChrgBr'')) (\<lambda>chrgBr.
             Inr (if chrgBr = ''DEBT'' then ''OUR''
                  else if chrgBr = ''CRED'' then ''BEN''
                  else if chrgBr = ''SHAR'' then ''SHA''
                  else chrgBr))
      else Inr [])"

text \<open>The array \<^verbatim>\<open>mt103\<close> at line 115, its elements computed in the order of the source.\<close>

definition mt103 :: "date_parser \<Rightarrow> jsval \<Rightarrow> error + string list" where
  "mt103 hostParse data =
     bindE (instrId data) (\<lambda>l20.
     bindE (valueDate hostParse data) (\<lambda>vd.
     bindE (amount data) (\<lambda>am.
     bindE (ToString (currency data)) (\<lambda>ccy.
     bindE (dbtrIban data) (\<lambda>l50.
     bindE (dbtrName data) (\<lambda>dn.
     bindE (pushCleanLines (dbtrAddressArray data)) (\<lambda>da.
     bindE (dbtrAgent data) (\<lambda>l52.
     bindE (instgAgent data) (\<lambda>l53.
     bindE (instdAgent data) (\<lambda>l54.
     bindE (cdtrAgent data) (\<lambda>l57.
     bindE (cdtrAccount data) (\<lambda>l59.
     bindE (cdtrName data) (\<lambda>cn.
     bindE (pushCleanLines (cdtrAddressArray data)) (\<lambda>ca.
     bindE (remittanceInfo data) (\<lambda>l70.
     bindE (charges data) (\<lambda>l71.
       Inr ([''{4:'', '':20:'' @ l20, '':23B:CRED'', '':32A:'' @ vd @ ccy @ am,
             '':50K:/'' @ l50]
            @ (if dn \<noteq> [] then [dn] else []) @ da
            @ ['':52A:'' @ l52, '':53A:'' @ l53, '':54A:'' @ l54, '':57A:'' @ l57,
               '':59:/'' @ l59]
            @ (if cn \<noteq> [] then [cn] else []) @ ca
            @ ['':70:'' @ l70, '':71A:'' @ l71, ''-}''])))))))))))))))))"

text \<open>\<^verbatim>\<open>mt103.join("\n")\<close> on an array of strings.\<close>

fun join :: "string list \<Rightarrow> string" where
  "join [] = []"
| "join [l] = l"
| "join (l # m # ls) = l @ CHR 0x0A # join (m # ls)"

text \<open>Line 28 reads a member of \<^verbatim>\<open>data\<close> itself, which throws when there is none.\<close>

definition cannotRead :: "jsval \<Rightarrow> string \<Rightarrow> error" where
  "cannotRead v k =
     TypeError (''Cannot read properties of '' @ (if v = JNull then ''null'' else ''undefined'')
                @ '' (reading '' @ [CHR 0x27] @ k @ [CHR 0x27] @ '')'')"

definition buildMT103 :: "date_parser \<Rightarrow> jsval \<Rightarrow> error + string" where
  "buildMT103 hostParse data =
     (if nullish data then Inl (cannotRead data ''GrpHdr'')
      else bindE (mt103 hostParse data) (\<lambda>ls. Inr (join ls)))"

subsection \<open>The callback of the /convert-text handler\<close>




section \<open>Inputs and predicates of the properties\<close>

text \<open>A host that parses nothing beyond the calendar-date form.\<close>

definition hostNone :: date_parser where
  "hostNone s = None"

text \<open>
  The transaction of the end-to-end scenario, as the decoder delivers it; every object
  of it has the prototype \<open>p\<close>.
\<close>

definition scenario :: "proto \<Rightarrow> jsval" where
  "scenario p =
     JObj p [(''CdtTrfTxInf'', JObj p
       [(''PmtId'', JObj p [(''InstrId'', JStr ''REF123'')]),
        (''IntrBkSttlmDt'', JStr ''2026-01-05''),
        (''IntrBkSttlmAmt'',
           JObj p [(''_'', JStr ''100''), (''$'', JObj p [(''Ccy'', JStr ''USD'')])]),
        (''DbtrAcct'', JObj p [(''Id'', JObj p [(''IBAN'', JStr ''DE89370400440532013000'')])]),
        (''Dbtr'', JObj p [(''Nm'', JStr ''John Doe'')]),
        (''CdtrAcct'', JObj p [(''Id'', JObj p [(''Othr'', JObj p [(''Id'', JStr ''987654'')])])]),
        (''Cdtr'', JObj p [(''Nm'', JStr ''Jane Roe'')]),
        (''RmtInf'', JObj p [(''Ustrd'', JStr ''Invoice 42'')]),
        (''ChrgBr'', JStr ''SHAR'')])]"

text \<open>A string contains the token, in any letter case, when the pattern matches somewhere.\<close>

fun containsNP :: "string \<Rightarrow> bool" where
  "containsNP [] = False"
| "containsNP (c # cs) = (matchesNP (c # cs) \<or> containsNP cs)"

text \<open>The pieces of a string between the matches that the scan of \<open>removeNP\<close> drops.\<close>

fun piecesNP :: "string \<Rightarrow> string list" where
  "piecesNP [] = [] # []"
| "piecesNP (c # cs) =
     (if matchesNP (c # cs) then [] # piecesNP (drop 10 cs)
      else (case piecesNP cs of [] \<Rightarrow> [c] # [] | p # ps \<Rightarrow> (c # p) # ps))"

text \<open>A string made of tokens (in any letter case) and white space only.\<close>

fun onlyNP :: "string \<Rightarrow> bool" where
  "onlyNP [] = True"
| "onlyNP (c # cs) =
     (if isWhiteSpace c then onlyNP cs else matchesNP (c # cs) \<and> onlyNP (drop 10 cs))"

text \<open>Transactions with a single field, the rest absent.\<close>

definition withAmount :: "jsval \<Rightarrow> jsval" where
  "withAmount amt =
     JObj NullPrototype [(''CdtTrfTxInf'', JObj NullPrototype [(''IntrBkSttlmAmt'', amt)])]"

definition withChrgBr :: "jsval \<Rightarrow> jsval" where
  "withChrgBr c =
     JObj NullPrototype [(''CdtTrfTxInf'', JObj NullPrototype [(''ChrgBr'', c)])]"

definition withDbtrNm :: "jsval \<Rightarrow> jsval" where
  "withDbtrNm n =
     JObj NullPrototype [(''CdtTrfTxInf'', JObj NullPrototype
       [(''Dbtr'', JObj NullPrototype [(''Nm'', n)])])]"

text \<open>
  A transaction whose instruction id is a sentinel enclosing another one, whose currency
  attribute is the sentinel and whose amount text is padded with blanks.
\<close>

definition sentinelFields :: jsval where
  "sentinelFields =
     JObj NullPrototype [(''CdtTrfTxInf'', JObj NullPrototype
       [(''PmtId'', JObj NullPrototype [(''InstrId'', JStr ''NOTNOTPROVIDEDPROVIDED'')]),
        (''IntrBkSttlmAmt'',
           JObj NullPrototype [(''_'', JStr '' 100 ''),
                               (''$'', JObj NullPrototype [(''Ccy'', JStr ''NOTPROVIDED'')])])])]"

text \<open>A transaction with an instruction id and three debtor address lines.\<close>

definition withAddress :: jsval where
  "withAddress =
     JObj NullPrototype [(''CdtTrfTxInf'', JObj NullPrototype
       [(''PmtId'', JObj NullPrototype [(''InstrId'', JStr '' NOTPROVIDED '')]),
        (''Dbtr'', JObj NullPrototype [(''PstlAdr'', JObj NullPrototype
           [(''AdrLine'', JArr [JStr ''1 Main St'', JStr ''NOTPROVIDED'', JStr '' Berlin ''])])])])]"

definition withCdtrAcct :: "jsval \<Rightarrow> jsval \<Rightarrow> jsval" where
  "withCdtrAcct othrId iban =
     JObj NullPrototype [(''CdtTrfTxInf'', JObj NullPrototype
       [(''CdtrAcct'', JObj NullPrototype [(''Id'', JObj NullPrototype
          [(''Othr'', JObj NullPrototype [(''Id'', othrId)]), (''IBAN'', iban)])])])]"

text \<open>The first and the last line of a text, and the occurrences of a tag in it.\<close>

definition firstLine :: "string \<Rightarrow> string" where
  "firstLine s = takeWhile (\<lambda>c. c \<noteq> CHR 0x0A) s"

definition lastLine :: "string \<Rightarrow> string" where
  "lastLine s = rev (takeWhile (\<lambda>c. c \<noteq> CHR 0x0A) (rev s))"

definition mandatoryTags :: "string list" where
  "mandatoryTags = ['':20:'', '':23B:'', '':32A:'', '':50K:'', '':52A:'', '':53A:'', '':54A:'',
                    '':57A:'', '':59:'', '':70:'', '':71A:'']"

fun countOcc :: "string \<Rightarrow> string \<Rightarrow> nat" where
  "countOcc t [] = 0"
| "countOcc t (c # cs) = (if prefix t (c # cs) then 1 else 0) + countOcc t cs"

text \<open>
  The values on which \<open>ToString\<close> does not throw: everything but an object without a
  callable \<^verbatim>\<open>toString\<close>, directly or as an element of an array.
\<close>

fun stringable :: "jsval \<Rightarrow> bool" where
  "stringable (JObj p kvs) = (p = ObjectPrototype \<and> map_of kvs ''toString'' = None)"
| "stringable (JArr xs) = list_all stringable xs"
| "stringable v = True"

text \<open>
  The values that \<open>buildMT103\<close> converts to text: the arguments of \<^verbatim>\<open>clean\<close>,
  \<^verbatim>\<open>String\<close> and \<^verbatim>\<open>new Date\<close> and the currency of the template literal, before
  the default \<^verbatim>\<open>|| ""\<close>.
\<close>

definition textValues :: "jsval \<Rightarrow> jsval list" where
  "textValues data =
     [get (get (txInfo data) ''PmtId'') ''InstrId'',
      get (txInfo data) ''IntrBkSttlmDt'',
      get (grpHdr data) ''CreDtTm'',
      orElse (get (get (txInfo data) ''IntrBkSttlmAmt'') ''_'') (get (txInfo data) ''IntrBkSttlmAmt''),
      get (get (get (txInfo data) ''IntrBkSttlmAmt'') ''$'') ''Ccy'',
      get (get (get (txInfo data) ''DbtrAcct'') ''Id'') ''IBAN'',
      get (dbtr data) ''Nm'']
     @ dbtrAddressArray data
     @ [get (get (get (txInfo data) ''DbtrAgt'') ''FinInstnId'') ''BICFI'',
        get (get (get (sttlmInf data) ''InstgRmbrsmntAgt'') ''FinInstnId'') ''BICFI'',
        get (get (get (sttlmInf data) ''InstdRmbrsmntAgt'') ''FinInstnId'') ''BICFI'',
        get (get (get (txInfo data) ''CdtrAgt'') ''FinInstnId'') ''BICFI'',
        orElse (get (get (get (get (txInfo data) ''CdtrAcct'') ''Id'') ''Othr'') ''Id'')
          (get (get (get (txInfo data) ''CdtrAcct'') ''Id'') ''IBAN''),
        get (cdtr data) ''Nm'']
     @ cdtrAddressArray data
     @ [get (get (txInfo data) ''RmtInf'') ''Ustrd'',
        get (txInfo data) ''ChrgBr'']"

section \<open>Basic facts\<close>

lemma bindE_Inl [simp]: "bindE (Inl e) f = Inl e"
  by (simp add: bindE_def)

lemma bindE_Inr [simp]: "bindE (Inr x) f = f x"
  by (simp add: bindE_def)

lemma bindE_eq_Inr: "bindE r f = Inr y \<longleftrightarrow> (\<exists>x. r = Inr x \<and> f x = Inr y)"
  by (cases r) simp_all

text \<open>The first letter decides most positions of the scan; this equation evaluates faster.\<close>

lemma Canonicalize_N: "Canonicalize c = CHR ''N'' \<longleftrightarrow> c = CHR ''N'' \<or> c = CHR ''n''"
  by (auto simp: Canonicalize_def split: if_splits)

lemma matchesNP_code [code]:
  "matchesNP s =
     (case s of [] \<Rightarrow> False
      | c # cs \<Rightarrow> if c = CHR ''N'' \<or> c = CHR ''n''
                  then map Canonicalize (take 10 cs) = ''OTPROVIDED'' else False)"
  by (cases s) (auto simp: matchesNP_def Canonicalize_N)

text \<open>What a successful run of the formatter has computed, and the array it has built.\<close>

lemma mt103_Inr:
  assumes "mt103 h data = Inr ls"
  shows "\<exists>l20 vd am ccy l50 dn da l52 l53 l54 l57 l59 cn ca l70 l71.
    instrId data = Inr l20 \<and> valueDate h data = Inr vd \<and> amount data = Inr am \<and>
    ToString (currency data) = Inr ccy \<and> dbtrIban data = Inr l50 \<and> dbtrName data = Inr dn \<and>
    pushCleanLines (dbtrAddressArray data) = Inr da \<and> dbtrAgent data = Inr l52 \<and>
    instgAgent data = Inr l53 \<and> instdAgent data = Inr l54 \<and> cdtrAgent data = Inr l57 \<and>
    cdtrAccount data = Inr l59 \<and> cdtrName data = Inr cn \<and>
    pushCleanLines (cdtrAddressArray data) = Inr ca \<and> remittanceInfo data = Inr l70 \<and>
    charges data = Inr l71 \<and>
    ls = [''{4:'', '':20:'' @ l20, '':23B:CRED'', '':32A:'' @ vd @ ccy @ am, '':50K:/'' @ l50]
         @ (if dn \<noteq> [] then [dn] else []) @ da
         @ ['':52A:'' @ l52, '':53A:'' @ l53, '':54A:'' @ l54, '':57A:'' @ l57, '':59:/'' @ l59]
         @ (if cn \<noteq> [] then [cn] else []) @ ca
         @ ['':70:'' @ l70, '':71A:'' @ l71, ''-}'']"
  using assms unfolding mt103_def
  by (simp only: bindE_eq_Inr sum.inject) blast

lemma mt103_cases:
  assumes "mt103 h data = Inr ls"
  obtains (parts) l20 vd am ccy l50 dn da l52 l53 l54 l57 l59 cn ca l70 l71 where
    "instrId data = Inr l20" and "valueDate h data = Inr vd" and "amount data = Inr am" and
    "ToString (currency data) = Inr ccy" and "dbtrIban data = Inr l50" and
    "dbtrName data = Inr dn" and "pushCleanLines (dbtrAddressArray data) = Inr da" and
    "dbtrAgent data = Inr l52" and "instgAgent data = Inr l53" and "instdAgent data = Inr l54" and
    "cdtrAgent data = Inr l57" and "cdtrAccount data = Inr l59" and "cdtrName data = Inr cn" and
    "pushCleanLines (cdtrAddressArray data) = Inr ca" and "remittanceInfo data = Inr l70" and
    "charges data = Inr l71" and
    "ls = [''{4:'', '':20:'' @ l20, '':23B:CRED'', '':32A:'' @ vd @ ccy @ am, '':50K:/'' @ l50]
         @ (if dn \<noteq> [] then [dn] else []) @ da
         @ ['':52A:'' @ l52, '':53A:'' @ l53, '':54A:'' @ l54, '':57A:'' @ l57, '':59:/'' @ l59]
         @ (if cn \<noteq> [] then [cn] else []) @ ca
         @ ['':70:'' @ l70, '':71A:'' @ l71, ''-}'']"
  using mt103_Inr [OF assms] by blast

lemma buildMT103_Inr:
  assumes "buildMT103 h data = Inr out"
  shows "\<not> nullish data \<and> (\<exists>ls. mt103 h data = Inr ls \<and> out = join ls)"
  using assms by (auto simp: buildMT103_def bindE_eq_Inr split: if_splits)

section \<open>The end-to-end scenario\<close>

text \<open>
  C1. On the scenario input (instruction id REF123, settlement date 2026-01-05, amount 100
  with currency attribute USD, debtor IBAN and name, creditor other-id and name,
  remittance text, charge bearer SHAR, nothing else) \<open>buildMT103\<close> returns the
  fourteen lines of the specification, joined by line feeds, with no line feed after
  the last one. This holds whatever the host parses beyond calendar dates and whichever
  prototype the objects of the tree have.
\<close>

theorem scenario_output:
  "buildMT103 hostParse (scenario p) =
     Inr ''{4:\<newline>:20:REF123\<newline>:23B:CRED\<newline>:32A:260105USD100,00\<newline>:50K:/DE89370400440532013000\<newline>John Doe\<newline>:52A:\<newline>:53A:\<newline>:54A:\<newline>:57A:\<newline>:59:/987654\<newline>Jane Roe\<newline>:70:Invoice 42\<newline>:71A:SHA\<newline>-}''"
  by code_simp

section \<open>Placeholder scrubbing\<close>

lemma piecesNP_nonempty: "piecesNP s \<noteq> []"
  by (induction s rule: piecesNP.induct) (auto split: list.splits)

lemma concat_piecesNP: "concat (piecesNP s) = removeNP s"
  by (induction s rule: piecesNP.induct) (auto split: list.splits)

lemma hd_piecesNP_prefix: "prefix (hd (piecesNP s)) s"
  by (induction s rule: piecesNP.induct) (auto split: list.splits)

lemma matchesNP_length: "matchesNP s \<Longrightarrow> 11 \<le> length s"
proof -
  assume "matchesNP s"
  then have "length (map Canonicalize (take 11 s)) = length ''NOTPROVIDED''"
    unfolding matchesNP_def by (rule arg_cong)
  then show ?thesis by simp
qed

lemma matchesNP_prefix:
  assumes "matchesNP p" and "prefix p s"
  shows "matchesNP s"
proof -
  from assms(2) obtain r where s: "s = p @ r" by (auto simp: prefix_def)
  from assms(1) have "11 \<le> length p" by (rule matchesNP_length)
  then have "take 11 s = take 11 p" by (simp add: s)
  with assms(1) show ?thesis by (simp add: matchesNP_def)
qed

lemma pieces_free: "p \<in> set (piecesNP s) \<Longrightarrow> \<not> containsNP p"
proof (induction s arbitrary: p rule: piecesNP.induct)
  case 1
  then show ?case by simp
next
  case (2 c cs)
  show ?case
  proof (cases "matchesNP (c # cs)")
    case True
    with 2 show ?thesis by auto
  next
    case False
    obtain q qs where q: "piecesNP cs = q # qs"
      using piecesNP_nonempty [of cs] by (cases "piecesNP cs") auto
    have pre: "prefix q cs" using hd_piecesNP_prefix [of cs] by (simp add: q)
    have nq: "\<not> containsNP q" using 2(2) [OF False] by (simp add: q)
    have "\<not> matchesNP (c # q)"
    proof
      assume "matchesNP (c # q)"
      moreover have "prefix (c # q) (c # cs)" using pre by simp
      ultimately have "matchesNP (c # cs)" by (rule matchesNP_prefix)
      with False show False by simp
    qed
    with nq have "\<not> containsNP (c # q)" by simp
    moreover have "\<forall>r \<in> set qs. \<not> containsNP r" using 2(2) [OF False] by (simp add: q)
    ultimately show ?thesis using 2(3) False by (auto simp: q)
  qed
qed

text \<open>
  C3, as stated: a string that contains the token is cleaned to a string without it.
  It fails where dropping a match joins the text on its two sides into a new token.
\<close>

theorem clean_nested_counterexample:
  "containsNP ''NOTNOTPROVIDEDPROVIDED'' \<and>
   clean (JStr ''NOTNOTPROVIDEDPROVIDED'') = Inr ''NOTPROVIDED'' \<and>
   containsNP ''NOTPROVIDED''"
  by code_simp

text \<open>
  C3, amended. \<open>clean\<close> drops, in one scan from the left, every match of the token
  that the scan finds, and trims: the result is the trimmed concatenation of the pieces
  of the input between the dropped matches, and none of these pieces contains the token.
  So the token can be left in the result only across a place where a match was dropped.
\<close>

theorem clean_pieces:
  "clean (JStr s) = Inr (trim (concat (piecesNP s))) \<and>
   (\<forall>p \<in> set (piecesNP s). \<not> containsNP p)"
  by (auto simp: clean_def concat_piecesNP trim_def dest: pieces_free)

theorem clean_pieces_witness:
  "clean (JStr ''aNOTPROVIDEDb'') = Inr ''ab'' \<and> piecesNP ''aNOTPROVIDEDb'' = [''a'', ''b'']
   \<and> \<not> containsNP ''a'' \<and> \<not> containsNP ''b''"
  using clean_pieces [of "''aNOTPROVIDEDb''"]
  by code_simp

lemma isWhiteSpace_not_match: "isWhiteSpace c \<Longrightarrow> \<not> matchesNP (c # cs)"
  by (auto simp: isWhiteSpace_def matchesNP_def Canonicalize_def)

lemma onlyNP_removeNP: "onlyNP s \<Longrightarrow> list_all isWhiteSpace (removeNP s)"
  by (induction s rule: removeNP.induct) (auto simp: isWhiteSpace_not_match split: if_splits)

lemma trim_whitespace: "list_all isWhiteSpace s \<Longrightarrow> trim s = []"
  by (auto simp: trim_def list_all_iff dropWhile_eq_Nil_conv dest: set_dropWhileD)

lemma clean_onlyNP: "onlyNP s \<Longrightarrow> clean (JStr s) = Inr []"
  by (simp add: clean_def trim_whitespace onlyNP_removeNP)

section \<open>Tag completeness\<close>

lemma join_snoc: "ys \<noteq> [] \<Longrightarrow> join (ys @ [z]) = join ys @ CHR 0x0A # z"
  by (induction ys rule: join.induct) auto

lemma lastLine_join: "ys \<noteq> [] \<Longrightarrow> lastLine (join (ys @ [''-}''])) = ''-}''"
  by (simp add: join_snoc lastLine_def)

lemma filter_none: "\<forall>l \<in> set xs. \<not> P l \<Longrightarrow> filter P xs = []"
  by (induction xs) auto

lemma tag_once:
  assumes "t \<in> set mandatoryTags" and "\<forall>l \<in> set (dl @ cl). \<not> prefix t l"
  shows "length (filter (prefix t)
           ([''{4:'', '':20:'' @ l20, '':23B:CRED'', '':32A:'' @ l32, '':50K:/'' @ l50] @ dl
            @ ['':52A:'' @ l52, '':53A:'' @ l53, '':54A:'' @ l54, '':57A:'' @ l57, '':59:/'' @ l59]
            @ cl @ ['':70:'' @ l70, '':71A:'' @ l71, ''-}''])) = 1"
proof -
  have d: "filter (prefix t) dl = []" and c: "filter (prefix t) cl = []"
    using assms(2) by (auto intro: filter_none)
  from assms(1) have "t = '':20:'' \<or> t = '':23B:'' \<or> t = '':32A:'' \<or> t = '':50K:''
    \<or> t = '':52A:'' \<or> t = '':53A:'' \<or> t = '':54A:'' \<or> t = '':57A:'' \<or> t = '':59:''
    \<or> t = '':70:'' \<or> t = '':71A:''"
    by (simp add: mandatoryTags_def)
  then show ?thesis
    using d c by (elim disjE) simp_all
qed

text \<open>
  C2, as stated: the returned string contains each mandatory tag exactly once. The
  values are rendered as they are, so a tag can be part of one: a debtor named
  \<^verbatim>\<open>:52A:X\<close> gives a second line that begins with \<^verbatim>\<open>:52A:\<close>.
\<close>

theorem duplicate_tag_counterexample:
  "buildMT103 hostNone (withDbtrNm (JStr '':52A:X'')) =
     Inr ''{4:\<newline>:20:\<newline>:23B:CRED\<newline>:32A:\<newline>:50K:/\<newline>:52A:X\<newline>:52A:\<newline>:53A:\<newline>:54A:\<newline>:57A:\<newline>:59:/\<newline>:70:\<newline>:71A:\<newline>-}''
   \<and> countOcc '':52A:'' ''{4:\<newline>:20:\<newline>:23B:CRED\<newline>:32A:\<newline>:50K:/\<newline>:52A:X\<newline>:52A:\<newline>:53A:\<newline>:54A:\<newline>:57A:\<newline>:59:/\<newline>:70:\<newline>:71A:\<newline>-}'' = 2"
  by code_simp

text \<open>
  C2, amended. The array that \<open>buildMT103\<close> joins is \<^verbatim>\<open>{4:\<close>, then one element
  for each of the eleven mandatory tags, in their order and each beginning with its
  tag, with the debtor's name and address lines after the \<^verbatim>\<open>:50K:\<close> element and the
  creditor's after the \<^verbatim>\<open>:59:\<close> element as the only other elements, then \<^verbatim>\<open>-}\<close>.
  The first line of the returned string is \<^verbatim>\<open>{4:\<close> and its last line is \<^verbatim>\<open>-}\<close>.
  A tag begins exactly one element of the array whenever it begins none of the name and
  address lines.
\<close>

theorem tag_lines:
  assumes "buildMT103 h data = Inr out"
  shows "\<exists>l20 l32 l50 dn da dl l52 l53 l54 l57 l59 cn ca cl l70 l71 ls.
     dbtrName data = Inr dn \<and> pushCleanLines (dbtrAddressArray data) = Inr da
     \<and> dl = (if dn \<noteq> [] then [dn] else []) @ da
     \<and> cdtrName data = Inr cn \<and> pushCleanLines (cdtrAddressArray data) = Inr ca
     \<and> cl = (if cn \<noteq> [] then [cn] else []) @ ca
     \<and> ls = [''{4:'', '':20:'' @ l20, '':23B:CRED'', '':32A:'' @ l32, '':50K:/'' @ l50] @ dl
          @ ['':52A:'' @ l52, '':53A:'' @ l53, '':54A:'' @ l54, '':57A:'' @ l57, '':59:/'' @ l59]
          @ cl @ ['':70:'' @ l70, '':71A:'' @ l71, ''-}'']
     \<and> mt103 h data = Inr ls \<and> out = join ls
     \<and> firstLine out = ''{4:'' \<and> lastLine out = ''-}''
     \<and> (\<forall>t \<in> set mandatoryTags.
          (\<forall>l \<in> set (dl @ cl). \<not> prefix t l) \<longrightarrow> length (filter (prefix t) ls) = 1)"
proof -
  from buildMT103_Inr [OF assms] obtain ls where ls: "mt103 h data = Inr ls" "out = join ls"
    by blast
  from ls(1) show ?thesis
  proof (cases rule: mt103_cases)
    case (parts l20 vd am ccy l50 dn da l52 l53 l54 l57 l59 cn ca l70 l71)
    define dl where dl: "dl = (if dn \<noteq> [] then [dn] else []) @ da"
    define cl where cl: "cl = (if cn \<noteq> [] then [cn] else []) @ ca"
    define l32 where "l32 = vd @ ccy @ am"
    have shape: "ls = [''{4:'', '':20:'' @ l20, '':23B:CRED'', '':32A:'' @ l32, '':50K:/'' @ l50] @ dl
          @ ['':52A:'' @ l52, '':53A:'' @ l53, '':54A:'' @ l54, '':57A:'' @ l57, '':59:/'' @ l59]
          @ cl @ ['':70:'' @ l70, '':71A:'' @ l71, ''-}'']"
      unfolding parts(17) dl cl l32_def by simp
    have f: "firstLine out = ''{4:''"
      unfolding ls(2) shape firstLine_def by simp
    have "ls = ([''{4:'', '':20:'' @ l20, '':23B:CRED'', '':32A:'' @ l32, '':50K:/'' @ l50] @ dl
          @ ['':52A:'' @ l52, '':53A:'' @ l53, '':54A:'' @ l54, '':57A:'' @ l57, '':59:/'' @ l59]
          @ cl @ ['':70:'' @ l70, '':71A:'' @ l71]) @ [''-}'']"
      unfolding shape by simp
    then have l: "lastLine out = ''-}''"
      unfolding ls(2) by (simp only: lastLine_join append_is_Nil_conv list.distinct simp_thms)
    have u: "\<forall>t \<in> set mandatoryTags.
          (\<forall>l \<in> set (dl @ cl). \<not> prefix t l) \<longrightarrow> length (filter (prefix t) ls) = 1"
    proof (intro ballI impI)
      fix t
      assume "t \<in> set mandatoryTags" and "\<forall>l \<in> set (dl @ cl). \<not> prefix t l"
      then show "length (filter (prefix t) ls) = 1"
        unfolding shape by (rule tag_once)
    qed
    show ?thesis
      by (intro exI conjI) (rule parts(6) parts(7) parts(13) parts(14) dl cl shape ls f l u)+
  qed
qed

theorem tag_lines_witness:
  "\<exists>ls. mt103 hostNone (scenario NullPrototype) = Inr ls \<and>
        firstLine (join ls) = ''{4:'' \<and> lastLine (join ls) = ''-}'' \<and>
        length (filter (prefix '':52A:'') ls) = 1"
proof -
  let ?d = "scenario NullPrototype"
  have h: "buildMT103 hostNone ?d =
     Inr ''{4:\<newline>:20:REF123\<newline>:23B:CRED\<newline>:32A:260105USD100,00\<newline>:50K:/DE89370400440532013000\<newline>John Doe\<newline>:52A:\<newline>:53A:\<newline>:54A:\<newline>:57A:\<newline>:59:/987654\<newline>Jane Roe\<newline>:70:Invoice 42\<newline>:71A:SHA\<newline>-}''"
    by code_simp
  from tag_lines [OF h] obtain dn da dl cn ca cl ls out where
    dn: "dbtrName ?d = Inr dn" and da: "pushCleanLines (dbtrAddressArray ?d) = Inr da" and
    dl: "dl = (if dn \<noteq> [] then [dn] else []) @ da" and
    cn: "cdtrName ?d = Inr cn" and ca: "pushCleanLines (cdtrAddressArray ?d) = Inr ca" and
    cl: "cl = (if cn \<noteq> [] then [cn] else []) @ ca" and
    a: "mt103 hostNone ?d = Inr ls" and b: "out = join ls" and
    c: "firstLine out = ''{4:''" and d: "lastLine out = ''-}''" and
    u: "\<forall>t \<in> set mandatoryTags.
          (\<forall>l \<in> set (dl @ cl). \<not> prefix t l) \<longrightarrow> length (filter (prefix t) ls) = 1"
    by (elim exE conjE)
  have "dbtrName ?d = Inr ''John Doe''" by code_simp
  with dn have dn': "dn = ''John Doe''" by simp
  have "pushCleanLines (dbtrAddressArray ?d) = Inr []" by code_simp
  with da have da': "da = []" by simp
  have "cdtrName ?d = Inr ''Jane Roe''" by code_simp
  with cn have cn': "cn = ''Jane Roe''" by simp
  have "pushCleanLines (cdtrAddressArray ?d) = Inr []" by code_simp
  with ca have ca': "ca = []" by simp
  have t: "'':52A:'' \<in> set mandatoryTags" by (simp add: mandatoryTags_def)
  have n: "\<forall>l \<in> set (dl @ cl). \<not> prefix '':52A:'' l"
    unfolding dl cl dn' da' cn' ca' by simp
  have e: "length (filter (prefix '':52A:'') ls) = 1"
    by (rule u [THEN bspec, OF t, THEN mp, OF n])
  show ?thesis
    by (rule exI [of _ ls]) (intro conjI a c [unfolded b] d [unfolded b] e)
qed

section \<open>Cleaning of the rendered fields\<close>

text \<open>The address lines pushed are the cleaned address values, in their order, without
  the empty ones.\<close>

lemma pushCleanLines_filter:
  "pushCleanLines vs = Inr ls \<Longrightarrow>
     \<exists>cs. list_all2 (\<lambda>v c. clean v = Inr c) vs cs \<and> ls = filter (\<lambda>c. c \<noteq> []) cs"
proof (induction vs arbitrary: ls)
  case Nil
  then show ?case by simp
next
  case (Cons v vs)
  from Cons.prems obtain c more where c: "clean v = Inr c" and m: "pushCleanLines vs = Inr more"
    and ls: "ls = (if c \<noteq> [] then c # more else more)"
    by (auto simp: bindE_eq_Inr)
  from Cons.IH [OF m] obtain cs where
    cs: "list_all2 (\<lambda>v c. clean v = Inr c) vs cs" and more: "more = filter (\<lambda>c. c \<noteq> []) cs"
    by blast
  have "list_all2 (\<lambda>v c. clean v = Inr c) (v # vs) (c # cs)" using c cs by simp
  moreover have "ls = filter (\<lambda>c. c \<noteq> []) (c # cs)" unfolding ls more by simp
  ultimately show ?case by blast
qed

lemma charges_clean:
  assumes "charges data = Inr l71"
  shows "\<exists>k. clean (get (txInfo data) ''ChrgBr'') = Inr k \<and>
            (l71 = k \<or> (k = ''DEBT'' \<and> l71 = ''OUR'') \<or> (k = ''CRED'' \<and> l71 = ''BEN'')
             \<or> (k = ''SHAR'' \<and> l71 = ''SHA''))"
proof (cases "truthy (get (txInfo data) ''ChrgBr'')")
  case True
  with assms obtain k where k: "clean (get (txInfo data) ''ChrgBr'') = Inr k"
    and e: "l71 = (if k = ''DEBT'' then ''OUR'' else if k = ''CRED'' then ''BEN''
                   else if k = ''SHAR'' then ''SHA'' else k)"
    by (auto simp: charges_def bindE_eq_Inr)
  have "l71 = k \<or> (k = ''DEBT'' \<and> l71 = ''OUR'') \<or> (k = ''CRED'' \<and> l71 = ''BEN'')
             \<or> (k = ''SHAR'' \<and> l71 = ''SHA'')"
    unfolding e by simp
  with k show ?thesis by (intro exI [of _ k] conjI)
next
  case False
  then have a: "clean (get (txInfo data) ''ChrgBr'') = Inr []" by (simp add: clean_def)
  from False assms have b: "l71 = []" by (simp add: charges_def)
  show ?thesis using a b by (intro exI [of _ "[]"]) simp
qed

text \<open>
  C4, as stated: every textual field passes through the cleaning rule and no tag value
  of the output renders the sentinel. On one input both fail: the instruction id, a
  sentinel enclosing another one, is cleaned by the single scan to the sentinel and
  rendered so after \<^verbatim>\<open>:20:\<close>; the currency and the amount are not passed through
  \<open>clean\<close> at all, so \<^verbatim>\<open>:32A:\<close> renders the currency \<^verbatim>\<open>NOTPROVIDED\<close> and the
  amount with its blanks.
\<close>

theorem sentinel_rendered_counterexample:
  "buildMT103 hostNone sentinelFields =
     Inr ''{4:\<newline>:20:NOTPROVIDED\<newline>:23B:CRED\<newline>:32A:NOTPROVIDED 100 ,00\<newline>:50K:/\<newline>:52A:\<newline>:53A:\<newline>:54A:\<newline>:57A:\<newline>:59:/\<newline>:70:\<newline>:71A:\<newline>-}''
   \<and> containsNP '':20:NOTPROVIDED'' \<and> containsNP '':32A:NOTPROVIDED 100 ,00''
   \<and> clean (currency sentinelFields) = Inr []
   \<and> ToString (currency sentinelFields) = Inr ''NOTPROVIDED''
   \<and> amount sentinelFields = Inr '' 100 ,00''"
  by code_simp

text \<open>
  C4, amended. The instruction id, the debtor IBAN, the debtor and creditor names and
  address lines, the four agent identifiers, the creditor account identifier, the
  remittance text and the charge-bearer code are rendered as \<open>clean\<close> returns them
  (the charge-bearer code after its translation): the address lines rendered are the
  cleaned address values in their order, those cleaned to the empty string left out; a
  name cleaned to the empty string is not rendered; and a field that is cleaned to the
  empty string renders as an empty value after its tag, as does a field made of
  sentinels and white space only.
\<close>

theorem cleaned_fields:
  assumes "buildMT103 h data = Inr out"
  shows "\<exists>l20 l32 l50 dn dcs l52 l53 l54 l57 l59 cn ccs l70 k l71.
     out = join ([''{4:'', '':20:'' @ l20, '':23B:CRED'', '':32A:'' @ l32, '':50K:/'' @ l50]
          @ (if dn \<noteq> [] then [dn] else []) @ filter (\<lambda>c. c \<noteq> []) dcs
          @ ['':52A:'' @ l52, '':53A:'' @ l53, '':54A:'' @ l54, '':57A:'' @ l57, '':59:/'' @ l59]
          @ (if cn \<noteq> [] then [cn] else []) @ filter (\<lambda>c. c \<noteq> []) ccs
          @ ['':70:'' @ l70, '':71A:'' @ l71, ''-}''])
     \<and> clean (orElse (get (get (txInfo data) ''PmtId'') ''InstrId'') (JStr [])) = Inr l20
     \<and> clean (orElse (get (get (get (txInfo data) ''DbtrAcct'') ''Id'') ''IBAN'') (JStr [])) = Inr l50
     \<and> clean (orElse (get (dbtr data) ''Nm'') (JStr [])) = Inr dn
     \<and> list_all2 (\<lambda>v c. clean v = Inr c) (dbtrAddressArray data) dcs
     \<and> clean (orElse (get (get (get (txInfo data) ''DbtrAgt'') ''FinInstnId'') ''BICFI'') (JStr []))
         = Inr l52
     \<and> clean (orElse (get (get (get (sttlmInf data) ''InstgRmbrsmntAgt'') ''FinInstnId'') ''BICFI'')
                (JStr [])) = Inr l53
     \<and> clean (orElse (get (get (get (sttlmInf data) ''InstdRmbrsmntAgt'') ''FinInstnId'') ''BICFI'')
                (JStr [])) = Inr l54
     \<and> clean (orElse (get (get (get (txInfo data) ''CdtrAgt'') ''FinInstnId'') ''BICFI'') (JStr []))
         = Inr l57
     \<and> clean (orElse (orElse (get (get (get (get (txInfo data) ''CdtrAcct'') ''Id'') ''Othr'') ''Id'')
                         (get (get (get (txInfo data) ''CdtrAcct'') ''Id'') ''IBAN''))
                (JStr [])) = Inr l59
     \<and> clean (orElse (get (cdtr data) ''Nm'') (JStr [])) = Inr cn
     \<and> list_all2 (\<lambda>v c. clean v = Inr c) (cdtrAddressArray data) ccs
     \<and> clean (orElse (get (get (txInfo data) ''RmtInf'') ''Ustrd'') (JStr [])) = Inr l70
     \<and> clean (get (txInfo data) ''ChrgBr'') = Inr k
     \<and> (l71 = k \<or> (k = ''DEBT'' \<and> l71 = ''OUR'') \<or> (k = ''CRED'' \<and> l71 = ''BEN'')
          \<or> (k = ''SHAR'' \<and> l71 = ''SHA''))
     \<and> (\<forall>s. onlyNP s \<longrightarrow> clean (JStr s) = Inr [])"
proof -
  from buildMT103_Inr [OF assms] obtain ls where ls: "mt103 h data = Inr ls" "out = join ls"
    by blast
  from ls(1) show ?thesis
  proof (cases rule: mt103_cases)
    case (parts l20 vd am ccy l50 dn da l52 l53 l54 l57 l59 cn ca l70 l71)
    from pushCleanLines_filter [OF parts(7)] obtain dcs where
      d1: "list_all2 (\<lambda>v c. clean v = Inr c) (dbtrAddressArray data) dcs" and
      d2: "da = filter (\<lambda>c. c \<noteq> []) dcs"
      by (elim exE conjE)
    from pushCleanLines_filter [OF parts(14)] obtain ccs where
      c1: "list_all2 (\<lambda>v c. clean v = Inr c) (cdtrAddressArray data) ccs" and
      c2: "ca = filter (\<lambda>c. c \<noteq> []) ccs"
      by (elim exE conjE)
    have o: "out = join ([''{4:'', '':20:'' @ l20, '':23B:CRED'', '':32A:'' @ (vd @ ccy @ am),
            '':50K:/'' @ l50]
          @ (if dn \<noteq> [] then [dn] else []) @ filter (\<lambda>c. c \<noteq> []) dcs
          @ ['':52A:'' @ l52, '':53A:'' @ l53, '':54A:'' @ l54, '':57A:'' @ l57, '':59:/'' @ l59]
          @ (if cn \<noteq> [] then [cn] else []) @ filter (\<lambda>c. c \<noteq> []) ccs
          @ ['':70:'' @ l70, '':71A:'' @ l71, ''-}''])"
      unfolding ls(2) parts(17) d2 c2 by (rule refl)
    from charges_clean [OF parts(16)] obtain k where
      k1: "clean (get (txInfo data) ''ChrgBr'') = Inr k" and
      k2: "l71 = k \<or> (k = ''DEBT'' \<and> l71 = ''OUR'') \<or> (k = ''CRED'' \<and> l71 = ''BEN'')
          \<or> (k = ''SHAR'' \<and> l71 = ''SHA'')"
      by (elim exE conjE)
    have np: "\<forall>s. onlyNP s \<longrightarrow> clean (JStr s) = Inr []"
      by (intro allI impI clean_onlyNP)
    note f = parts(1) [unfolded instrId_def] parts(5) [unfolded dbtrIban_def]
      parts(6) [unfolded dbtrName_def] parts(8) [unfolded dbtrAgent_def agentBIC_def]
      parts(9) [unfolded instgAgent_def agentBIC_def]
      parts(10) [unfolded instdAgent_def agentBIC_def]
      parts(11) [unfolded cdtrAgent_def agentBIC_def]
      parts(12) [unfolded cdtrAccount_def Let_def] parts(13) [unfolded cdtrName_def]
      parts(15) [unfolded remittanceInfo_def]
    show ?thesis
      by (intro exI conjI) (rule o f d1 c1 k1 k2 np)+
  qed
qed

theorem cleaned_fields_witness:
  "\<exists>l20 dcs. clean (orElse (get (get (txInfo withAddress) ''PmtId'') ''InstrId'') (JStr []))
                 = Inr l20 \<and> l20 = [] \<and>
             list_all2 (\<lambda>v c. clean v = Inr c) (dbtrAddressArray withAddress) dcs \<and>
             filter (\<lambda>c. c \<noteq> []) dcs = [''1 Main St'', ''Berlin'']"
proof -
  have h: "buildMT103 hostNone withAddress =
     Inr ''{4:\<newline>:20:\<newline>:23B:CRED\<newline>:32A:\<newline>:50K:/\<newline>1 Main St\<newline>Berlin\<newline>:52A:\<newline>:53A:\<newline>:54A:\<newline>:57A:\<newline>:59:/\<newline>:70:\<newline>:71A:\<newline>-}''"
    by code_simp
  from cleaned_fields [OF h] obtain l20 dcs where
    a: "clean (orElse (get (get (txInfo withAddress) ''PmtId'') ''InstrId'') (JStr [])) = Inr l20"
    and b: "list_all2 (\<lambda>v c. clean v = Inr c) (dbtrAddressArray withAddress) dcs"
    by (elim exE conjE)
  have "clean (orElse (get (get (txInfo withAddress) ''PmtId'') ''InstrId'') (JStr [])) = Inr []"
    by code_simp
  with a have l: "l20 = []" by simp
  have arr: "dbtrAddressArray withAddress =
               [JStr ''1 Main St'', JStr ''NOTPROVIDED'', JStr '' Berlin '']"
    by code_simp
  have c1: "clean (JStr ''1 Main St'') = Inr ''1 Main St''" by code_simp
  have c2: "clean (JStr ''NOTPROVIDED'') = Inr []" by code_simp
  have c3: "clean (JStr '' Berlin '') = Inr ''Berlin''" by code_simp
  from b have "dcs = [''1 Main St'', [], ''Berlin'']"
    unfolding arr by (auto simp: list_all2_Cons1 c1 c2 c3)
  then have d: "filter (\<lambda>c. c \<noteq> []) dcs = [''1 Main St'', ''Berlin'']" by simp
  show ?thesis
    by (rule exI [of _ l20], rule exI [of _ dcs]) (intro conjI a l b d)
qed

section \<open>Amount formatting\<close>

lemma replaceDot_no_dot: "CHR ''.'' \<notin> set a \<Longrightarrow> replaceDot a = a"
  by (induction a) auto

lemma replaceDot_first: "CHR ''.'' \<notin> set p \<Longrightarrow> replaceDot (p @ CHR ''.'' # q) = p @ CHR '','' # q"
  by (induction p) auto

lemma amount_text:
  assumes "get (txInfo data) ''IntrBkSttlmAmt'' = JStr a \<or>
           get (get (txInfo data) ''IntrBkSttlmAmt'') ''_'' = JStr a"
    and "a \<noteq> []"
  shows "amount data = Inr (if CHR '','' \<notin> set (replaceDot a) then replaceDot a @ '',00'' else replaceDot a)"
  using assms by (auto simp: amount_def orElse_def Let_def)

text \<open>
  C5. The amount is formatted on its text alone. For a non-empty amount text, given
  bare or as the text of an element with attributes: without a full stop and without
  a comma it gets \<^verbatim>\<open>,00\<close> appended; with a comma and no full stop it is left as it is;
  otherwise its first full stop becomes a comma and nothing is appended. So
  \<^verbatim>\<open>100.5\<close> gives \<^verbatim>\<open>100,5\<close>, \<^verbatim>\<open>100\<close> gives \<^verbatim>\<open>100,00\<close> and \<^verbatim>\<open>100.00\<close> gives
  \<^verbatim>\<open>100,00\<close>.
\<close>

theorem amount_lexical:
  assumes "get (txInfo data) ''IntrBkSttlmAmt'' = JStr a \<or>
           get (get (txInfo data) ''IntrBkSttlmAmt'') ''_'' = JStr a"
    and "a \<noteq> []"
  shows "(CHR ''.'' \<notin> set a \<and> CHR '','' \<notin> set a \<longrightarrow> amount data = Inr (a @ '',00''))
       \<and> (CHR ''.'' \<notin> set a \<and> CHR '','' \<in> set a \<longrightarrow> amount data = Inr a)
       \<and> (\<forall>p q. a = p @ ''.'' @ q \<and> CHR ''.'' \<notin> set p \<longrightarrow> amount data = Inr (p @ '','' @ q))
       \<and> amount (withAmount (JStr ''100.5'')) = Inr ''100,5''
       \<and> amount (withAmount (JStr ''100'')) = Inr ''100,00''
       \<and> amount (withAmount (JStr ''100.00'')) = Inr ''100,00''"
proof -
  note am = amount_text [OF assms]
  have 1: "CHR ''.'' \<notin> set a \<and> CHR '','' \<notin> set a \<longrightarrow> amount data = Inr (a @ '',00'')"
    by (simp add: am replaceDot_no_dot)
  have 2: "CHR ''.'' \<notin> set a \<and> CHR '','' \<in> set a \<longrightarrow> amount data = Inr a"
    by (simp add: am replaceDot_no_dot)
  have 3: "\<forall>p q. a = p @ ''.'' @ q \<and> CHR ''.'' \<notin> set p \<longrightarrow> amount data = Inr (p @ '','' @ q)"
    by (auto simp: am replaceDot_first)
  have 4: "amount (withAmount (JStr ''100.5'')) = Inr ''100,5''" by code_simp
  have 5: "amount (withAmount (JStr ''100'')) = Inr ''100,00''" by code_simp
  have 6: "amount (withAmount (JStr ''100.00'')) = Inr ''100,00''" by code_simp
  from 1 2 3 4 5 6 show ?thesis by blast
qed

theorem amount_lexical_witness:
  "amount (withAmount (JObj NullPrototype [(''_'', JStr ''12.50''), (''$'', JObj NullPrototype [(''Ccy'', JStr ''EUR'')])]))
     = Inr ''12,50''"
proof -
  let ?d = "withAmount (JObj NullPrototype [(''_'', JStr ''12.50''), (''$'', JObj NullPrototype [(''Ccy'', JStr ''EUR'')])])"
  have h1: "get (txInfo ?d) ''IntrBkSttlmAmt'' = JStr ''12.50'' \<or>
           get (get (txInfo ?d) ''IntrBkSttlmAmt'') ''_'' = JStr ''12.50''"
    by code_simp
  have h2: "''12.50'' \<noteq> []" by simp
  have h3: "''12.50'' = ''12'' @ ''.'' @ ''50'' \<and> CHR ''.'' \<notin> set ''12''" by simp
  from amount_lexical [OF h1 h2] h3 show ?thesis by fastforce
qed

section \<open>Date formatting\<close>

text \<open>
  C6 asks for six digits, the year given by its last two digits, for every year that
  parses. The calendar date \<^verbatim>\<open>0999-01-05\<close> parses to the year 999, of which
  \<^verbatim>\<open>slice(2)\<close> keeps the single digit 9: the result has five digits, not
  \<^verbatim>\<open>990105\<close>.
\<close>

theorem formatDate_year_999:
  "formatDateYYMMDD hostParse (JStr ''0999-01-05'') = Inr ''90105''"
  by code_simp

section \<open>Charge-bearer code\<close>

lemma nth_tail3: "(xs @ [a, b, c]) ! (length (xs @ [a, b, c]) - 2) = b"
  by (simp add: nth_append)

text \<open>
  C7. The element before the closing \<^verbatim>\<open>-}\<close> is \<^verbatim>\<open>:71A:\<close> followed by the charge
  value: empty when the charge-bearer field is absent (or null or empty); otherwise
  OUR, BEN, SHA for a cleaned code DEBT, CRED, SHAR and the cleaned code itself for any
  other.
\<close>

theorem charge_bearer:
  assumes "buildMT103 h data = Inr out"
  shows "\<exists>ls c. out = join ls \<and> mt103 h data = Inr ls \<and>
      ls ! (length ls - 2) = '':71A:'' @ c \<and>
      (\<not> truthy (get (txInfo data) ''ChrgBr'') \<longrightarrow> c = []) \<and>
      (truthy (get (txInfo data) ''ChrgBr'') \<longrightarrow>
         (\<exists>k. clean (get (txInfo data) ''ChrgBr'') = Inr k \<and>
              (k = ''DEBT'' \<longrightarrow> c = ''OUR'') \<and> (k = ''CRED'' \<longrightarrow> c = ''BEN'') \<and>
              (k = ''SHAR'' \<longrightarrow> c = ''SHA'') \<and>
              (k \<noteq> ''DEBT'' \<and> k \<noteq> ''CRED'' \<and> k \<noteq> ''SHAR'' \<longrightarrow> c = k)))"
proof -
  from buildMT103_Inr [OF assms] obtain ls where ls: "mt103 h data = Inr ls" "out = join ls"
    by blast
  from ls(1) show ?thesis
  proof (cases rule: mt103_cases)
    case (parts l20 vd am ccy l50 dn da l52 l53 l54 l57 l59 cn ca l70 c)
    have shape: "ls = ([''{4:'', '':20:'' @ l20, '':23B:CRED'', '':32A:'' @ vd @ ccy @ am,
         '':50K:/'' @ l50] @ (if dn \<noteq> [] then [dn] else []) @ da
         @ ['':52A:'' @ l52, '':53A:'' @ l53, '':54A:'' @ l54, '':57A:'' @ l57, '':59:/'' @ l59]
         @ (if cn \<noteq> [] then [cn] else []) @ ca) @ ['':70:'' @ l70, '':71A:'' @ c, ''-}'']"
      unfolding parts(17) by simp
    have n: "ls ! (length ls - 2) = '':71A:'' @ c"
      unfolding shape by (rule nth_tail3)
    have a: "\<not> truthy (get (txInfo data) ''ChrgBr'') \<longrightarrow> c = []"
      using parts(16) by (auto simp: charges_def split: if_splits)
    have b: "truthy (get (txInfo data) ''ChrgBr'') \<longrightarrow>
         (\<exists>k. clean (get (txInfo data) ''ChrgBr'') = Inr k \<and>
              (k = ''DEBT'' \<longrightarrow> c = ''OUR'') \<and> (k = ''CRED'' \<longrightarrow> c = ''BEN'') \<and>
              (k = ''SHAR'' \<longrightarrow> c = ''SHA'') \<and>
              (k \<noteq> ''DEBT'' \<and> k \<noteq> ''CRED'' \<and> k \<noteq> ''SHAR'' \<longrightarrow> c = k))"
    proof
      assume t: "truthy (get (txInfo data) ''ChrgBr'')"
      with parts(16) obtain k where k: "clean (get (txInfo data) ''ChrgBr'') = Inr k"
        and ck: "c = (if k = ''DEBT'' then ''OUR'' else if k = ''CRED'' then ''BEN''
                      else if k = ''SHAR'' then ''SHA'' else k)"
        by (auto simp: charges_def bindE_eq_Inr)
      have props: "(k = ''DEBT'' \<longrightarrow> c = ''OUR'') \<and> (k = ''CRED'' \<longrightarrow> c = ''BEN'') \<and>
              (k = ''SHAR'' \<longrightarrow> c = ''SHA'') \<and>
              (k \<noteq> ''DEBT'' \<and> k \<noteq> ''CRED'' \<and> k \<noteq> ''SHAR'' \<longrightarrow> c = k)"
        unfolding ck by simp
      show "\<exists>k. clean (get (txInfo data) ''ChrgBr'') = Inr k \<and>
              (k = ''DEBT'' \<longrightarrow> c = ''OUR'') \<and> (k = ''CRED'' \<longrightarrow> c = ''BEN'') \<and>
              (k = ''SHAR'' \<longrightarrow> c = ''SHA'') \<and>
              (k \<noteq> ''DEBT'' \<and> k \<noteq> ''CRED'' \<and> k \<noteq> ''SHAR'' \<longrightarrow> c = k)"
        by (rule exI [of _ k], rule conjI [OF k props])
    qed
    show ?thesis
      by (rule exI [of _ ls], rule exI [of _ c]) (intro conjI ls n a b)
  qed
qed

theorem charge_bearer_witness:
  "\<exists>ls. mt103 hostNone (withChrgBr (JStr ''DEBT'')) = Inr ls \<and> ls ! (length ls - 2) = '':71A:OUR''"
proof -
  let ?d = "withChrgBr (JStr ''DEBT'')"
  have h: "buildMT103 hostNone ?d =
     Inr ''{4:\<newline>:20:\<newline>:23B:CRED\<newline>:32A:\<newline>:50K:/\<newline>:52A:\<newline>:53A:\<newline>:54A:\<newline>:57A:\<newline>:59:/\<newline>:70:\<newline>:71A:OUR\<newline>-}''"
    by code_simp
  have t: "truthy (get (txInfo ?d) ''ChrgBr'')" by code_simp
  have k: "clean (get (txInfo ?d) ''ChrgBr'') = Inr ''DEBT''" by code_simp
  from charge_bearer [OF h] obtain ls c where
    a: "mt103 hostNone ?d = Inr ls" and b: "ls ! (length ls - 2) = '':71A:'' @ c" and
    c: "truthy (get (txInfo ?d) ''ChrgBr'') \<longrightarrow>
         (\<exists>k. clean (get (txInfo ?d) ''ChrgBr'') = Inr k \<and>
              (k = ''DEBT'' \<longrightarrow> c = ''OUR'') \<and> (k = ''CRED'' \<longrightarrow> c = ''BEN'') \<and>
              (k = ''SHAR'' \<longrightarrow> c = ''SHA'') \<and>
              (k \<noteq> ''DEBT'' \<and> k \<noteq> ''CRED'' \<and> k \<noteq> ''SHAR'' \<longrightarrow> c = k))"
    by (elim exE conjE)
  from c t k have "c = ''OUR''" by (simp only: sum.inject simp_thms)
  with a b show ?thesis by (intro exI [of _ ls]) simp
qed

section \<open>Missing root\<close>




section \<open>Totality of the formatter\<close>

lemma ToString_stringable:
  "stringable v \<Longrightarrow> \<exists>s. ToString v = Inr s"
  "list_all stringable xs \<Longrightarrow> \<exists>s. joinElements xs = Inr s"
proof (induction v and xs rule: ToString_joinElements.induct)
  case (7 x xs)
  from 7 have "\<exists>s. (if nullish x then Inr [] else ToString x) = Inr s"
    by (cases "nullish x") auto
  then obtain s where s: "(if nullish x then Inr [] else ToString x) = Inr s" by blast
  show ?case
  proof (cases "xs = []")
    case True
    with s show ?thesis by simp
  next
    case False
    with 7 obtain r where "joinElements xs = Inr r" by auto
    with s False show ?thesis by simp
  qed
qed auto

lemma clean_stringable: "stringable v \<Longrightarrow> \<exists>s. clean v = Inr s"
  using ToString_stringable(1) [of v] by (auto simp: clean_def)

lemma stringable_orElse: "stringable a \<Longrightarrow> stringable b \<Longrightarrow> stringable (orElse a b)"
  by (simp add: orElse_def)

lemma clean_orElse_empty: "stringable v \<Longrightarrow> \<exists>s. clean (orElse v (JStr [])) = Inr s"
  by (rule clean_stringable) (simp add: stringable_orElse)

lemma pushCleanLines_stringable:
  "list_all stringable vs \<Longrightarrow> \<exists>ls. pushCleanLines vs = Inr ls"
proof (induction vs)
  case Nil
  show ?case by simp
next
  case (Cons v vs)
  then obtain c ls where "clean v = Inr c" "pushCleanLines vs = Inr ls"
    using clean_stringable [of v] by auto
  then show ?case by simp
qed

lemma formatDate_stringable: "stringable v \<Longrightarrow> \<exists>s. formatDateYYMMDD h v = Inr s"
  using ToString_stringable(1) [of v]
  by (auto simp: formatDateYYMMDD_def Let_def split: option.splits)

lemma valueDate_stringable:
  assumes "stringable (get (txInfo data) ''IntrBkSttlmDt'')"
    and "stringable (get (grpHdr data) ''CreDtTm'')"
  shows "\<exists>s. valueDate h data = Inr s"
proof -
  from formatDate_stringable [OF assms(1)] obtain a
    where a: "formatDateYYMMDD h (get (txInfo data) ''IntrBkSttlmDt'') = Inr a" by blast
  from formatDate_stringable [OF assms(2)] obtain b
    where b: "formatDateYYMMDD h (get (grpHdr data) ''CreDtTm'') = Inr b" by blast
  show ?thesis by (simp add: valueDate_def a b)
qed

lemma amount_stringable:
  assumes "stringable (orElse (get (get (txInfo data) ''IntrBkSttlmAmt'') ''_'')
                          (get (txInfo data) ''IntrBkSttlmAmt''))"
  shows "\<exists>s. amount data = Inr s"
proof -
  let ?a = "orElse (orElse (get (get (txInfo data) ''IntrBkSttlmAmt'') ''_'')
                     (get (txInfo data) ''IntrBkSttlmAmt'')) (JStr [])"
  have "stringable ?a" using assms by (simp add: stringable_orElse)
  then obtain s where "ToString ?a = Inr s" using ToString_stringable(1) by blast
  then show ?thesis by (simp add: amount_def Let_def)
qed

lemma charges_stringable:
  assumes "stringable (get (txInfo data) ''ChrgBr'')"
  shows "\<exists>s. charges data = Inr s"
proof -
  from clean_stringable [OF assms] obtain k where "clean (get (txInfo data) ''ChrgBr'') = Inr k"
    by blast
  then show ?thesis by (simp add: charges_def)
qed

text \<open>
  C9, as stated: \<open>buildMT103\<close> never throws once a transaction node was resolved. It
  throws where an object without a callable \<^verbatim>\<open>toString\<close> stands in the place of a
  text: a debtor name with an attribute, decoded to a prototype-less object, or an
  ordinary object with a child element named \<^verbatim>\<open>toString\<close>.
\<close>

theorem object_as_text_counterexample:
  "buildMT103 hostNone (withDbtrNm (JObj NullPrototype
       [(''_'', JStr ''John Doe''), (''$'', JObj NullPrototype [(''lang'', JStr ''en'')])]))
     = Inl (TypeError ''Cannot convert object to primitive value'')
   \<and> buildMT103 hostNone (withDbtrNm (JObj ObjectPrototype [(''toString'', JStr ''John Doe'')]))
     = Inl (TypeError ''Cannot convert object to primitive value'')"
  by code_simp

text \<open>
  C9, amended. \<open>buildMT103\<close> returns a string, and does not throw, on every
  transaction node other than \<^verbatim>\<open>null\<close> and \<^verbatim>\<open>undefined\<close> in which each value that
  it converts to text is absent, \<^verbatim>\<open>null\<close>, a string, an ordinary object without a
  member named \<^verbatim>\<open>toString\<close>, or an array of such values.
\<close>

theorem total_on_text:
  assumes "\<not> nullish data" and "list_all stringable (textValues data)"
  shows "\<exists>out. buildMT103 h data = Inr out"
proof -
  from assms(2) have
    s1: "stringable (get (get (txInfo data) ''PmtId'') ''InstrId'')" and
    s2: "stringable (get (txInfo data) ''IntrBkSttlmDt'')" and
    s3: "stringable (get (grpHdr data) ''CreDtTm'')" and
    s4: "stringable (orElse (get (get (txInfo data) ''IntrBkSttlmAmt'') ''_'')
                          (get (txInfo data) ''IntrBkSttlmAmt''))" and
    s5: "stringable (get (get (get (txInfo data) ''IntrBkSttlmAmt'') ''$'') ''Ccy'')" and
    s6: "stringable (get (get (get (txInfo data) ''DbtrAcct'') ''Id'') ''IBAN'')" and
    s7: "stringable (get (dbtr data) ''Nm'')" and
    s8: "list_all stringable (dbtrAddressArray data)" and
    s9: "stringable (get (get (get (txInfo data) ''DbtrAgt'') ''FinInstnId'') ''BICFI'')" and
    s10: "stringable (get (get (get (sttlmInf data) ''InstgRmbrsmntAgt'') ''FinInstnId'') ''BICFI'')" and
    s11: "stringable (get (get (get (sttlmInf data) ''InstdRmbrsmntAgt'') ''FinInstnId'') ''BICFI'')" and
    s12: "stringable (get (get (get (txInfo data) ''CdtrAgt'') ''FinInstnId'') ''BICFI'')" and
    s13: "stringable (orElse (get (get (get (get (txInfo data) ''CdtrAcct'') ''Id'') ''Othr'') ''Id'')
          (get (get (get (txInfo data) ''CdtrAcct'') ''Id'') ''IBAN''))" and
    s14: "stringable (get (cdtr data) ''Nm'')" and
    s15: "list_all stringable (cdtrAddressArray data)" and
    s16: "stringable (get (get (txInfo data) ''RmtInf'') ''Ustrd'')" and
    s17: "stringable (get (txInfo data) ''ChrgBr'')"
    unfolding textValues_def by simp_all
  from clean_orElse_empty [OF s1] obtain l20 where 1: "instrId data = Inr l20"
    unfolding instrId_def by blast
  from valueDate_stringable [OF s2 s3] obtain vd where 2: "valueDate h data = Inr vd" by blast
  from amount_stringable [OF s4] obtain am where 3: "amount data = Inr am" by blast
  from ToString_stringable(1) [OF stringable_orElse [OF s5, of "JStr []"]]
  obtain ccy where 4: "ToString (currency data) = Inr ccy"
    unfolding currency_def by auto
  from clean_orElse_empty [OF s6] obtain l50 where 5: "dbtrIban data = Inr l50"
    unfolding dbtrIban_def by blast
  from clean_orElse_empty [OF s7] obtain dn where 6: "dbtrName data = Inr dn"
    unfolding dbtrName_def by blast
  from pushCleanLines_stringable [OF s8] obtain da
    where 7: "pushCleanLines (dbtrAddressArray data) = Inr da" by blast
  from clean_orElse_empty [OF s9] obtain l52 where 8: "dbtrAgent data = Inr l52"
    unfolding dbtrAgent_def agentBIC_def by blast
  from clean_orElse_empty [OF s10] obtain l53 where 9: "instgAgent data = Inr l53"
    unfolding instgAgent_def agentBIC_def by blast
  from clean_orElse_empty [OF s11] obtain l54 where 10: "instdAgent data = Inr l54"
    unfolding instdAgent_def agentBIC_def by blast
  from clean_orElse_empty [OF s12] obtain l57 where 11: "cdtrAgent data = Inr l57"
    unfolding cdtrAgent_def agentBIC_def by blast
  from clean_orElse_empty [OF s13] obtain l59 where 12: "cdtrAccount data = Inr l59"
    unfolding cdtrAccount_def Let_def by blast
  from clean_orElse_empty [OF s14] obtain cn where 13: "cdtrName data = Inr cn"
    unfolding cdtrName_def by blast
  from pushCleanLines_stringable [OF s15] obtain ca
    where 14: "pushCleanLines (cdtrAddressArray data) = Inr ca" by blast
  from clean_orElse_empty [OF s16] obtain l70 where 15: "remittanceInfo data = Inr l70"
    unfolding remittanceInfo_def by blast
  from charges_stringable [OF s17] obtain l71 where 16: "charges data = Inr l71" by blast
  have "\<exists>ls. mt103 h data = Inr ls"
    unfolding mt103_def 1 2 3 4 5 6 7 8 9 10 11 12 13 14 15 16 bindE_Inr by (rule exI) (rule refl)
  then obtain ls where "mt103 h data = Inr ls" by (rule exE)
  with assms(1) show ?thesis by (simp add: buildMT103_def)
qed

theorem total_on_text_witness:
  "\<exists>out. buildMT103 hostNone (scenario NullPrototype) = Inr out"
proof -
  have h1: "\<not> nullish (scenario NullPrototype)" by code_simp
  have h2: "list_all stringable (textValues (scenario NullPrototype))" by code_simp
  from total_on_text [OF h1 h2] show ?thesis .
qed

section \<open>Creditor account preference\<close>

text \<open>
  C10. When the creditor account's other-identification is a non-empty string made of
  sentinels and white space only, the creditor account is rendered empty, whatever the
  IBAN is: the element after the \<^verbatim>\<open>:57A:\<close> element is \<^verbatim>\<open>:59:/\<close>.
\<close>

theorem othr_id_no_fallback:
  assumes "buildMT103 h data = Inr out"
    and "get (get (get (get (txInfo data) ''CdtrAcct'') ''Id'') ''Othr'') ''Id'' = JStr s"
    and "s \<noteq> []" and "onlyNP s"
  shows "cdtrAccount data = Inr [] \<and>
         (\<exists>pre l57 post. out = join (pre @ ['':57A:'' @ l57, '':59:/''] @ post))"
proof -
  have acct: "cdtrAccount data = Inr []"
    using assms(2,3) clean_onlyNP [OF assms(4)] by (simp add: cdtrAccount_def orElse_def)
  from buildMT103_Inr [OF assms(1)] obtain ls where ls: "mt103 h data = Inr ls" "out = join ls"
    by blast
  from ls(1) show ?thesis
  proof (cases rule: mt103_cases)
    case (parts l20 vd am ccy l50 dn da l52 l53 l54 l57 l59 cn ca l70 l71)
    from parts(12) acct have e: "l59 = []" by simp
    have "ls = ([''{4:'', '':20:'' @ l20, '':23B:CRED'', '':32A:'' @ vd @ ccy @ am,
         '':50K:/'' @ l50] @ (if dn \<noteq> [] then [dn] else []) @ da
         @ ['':52A:'' @ l52, '':53A:'' @ l53, '':54A:'' @ l54]) @ ['':57A:'' @ l57, '':59:/'']
         @ ((if cn \<noteq> [] then [cn] else []) @ ca @ ['':70:'' @ l70, '':71A:'' @ l71, ''-}''])"
      unfolding parts(17) e by simp
    then have "\<exists>pre l57 post. out = join (pre @ ['':57A:'' @ l57, '':59:/''] @ post)"
      unfolding ls(2) by (intro exI) (rule arg_cong [of _ _ join])
    with acct show ?thesis by (rule conjI)
  qed
qed

theorem othr_id_no_fallback_witness:
  "cdtrAccount (withCdtrAcct (JStr '' NOTPROVIDED notprovided'') (JStr ''GB33BUKB20201555555555''))
     = Inr []"
proof -
  let ?d = "withCdtrAcct (JStr '' NOTPROVIDED notprovided'') (JStr ''GB33BUKB20201555555555'')"
  have h1: "buildMT103 hostNone ?d =
     Inr ''{4:\<newline>:20:\<newline>:23B:CRED\<newline>:32A:\<newline>:50K:/\<newline>:52A:\<newline>:53A:\<newline>:54A:\<newline>:57A:\<newline>:59:/\<newline>:70:\<newline>:71A:\<newline>-}''"
    by code_simp
  have h2: "get (get (get (get (txInfo ?d) ''CdtrAcct'') ''Id'') ''Othr'') ''Id'' = JStr '' NOTPROVIDED notprovided''"
    by code_simp
  have h3: "'' NOTPROVIDED notprovided'' \<noteq> []" by simp
  have h4: "onlyNP '' NOTPROVIDED notprovided''" by code_simp
  from othr_id_no_fallback [OF h1 h2 h3 h4] show ?thesis by simp
qed

end
